theory Spec2Isabelle
  imports Complex_Main
begin

section \<open>Dubbing engine: segment timing synchronisation and timeline assembly\<close>

text \<open>
  A shallow embedding of \<^verbatim>\<open>src/dubbing.py\<close>. Python floats are modelled as reals (no
  infinities, no NaN). Two roundings are kept: the six-decimal formatting \<^verbatim>\<open>{x:.6f}\<close>,
  and the rounding of the product \<^verbatim>\<open>start * 1000\<close> to a double before \<^verbatim>\<open>int\<close> cuts it,
  where one unit in the last place decides the millisecond. The external collaborators
  (speech synthesis, the probe and the transcoder) are parameters that say how each call
  ended.
\<close>

subsection \<open>Values printed into a filter description\<close>

text \<open>
  \<^verbatim>\<open>f"{x:.6f}"\<close> prints the decimal with six fractional digits nearest to \<open>x\<close>, a tie
  going to the even last digit. \<open>fmt6 x\<close> is the number that the printed text denotes.
\<close>

definition round_half_even :: "real \<Rightarrow> int" where
  "round_half_even x =
     (let f = \<lfloor>x\<rfloor>; d = x - of_int f
      in if d < 1 / 2 then f else if 1 / 2 < d then f + 1 else if even f then f else f + 1)"

definition fmt6 :: "real \<Rightarrow> real" where
  "fmt6 x = of_int (round_half_even (x * 1000000)) / 1000000"

text \<open>
  One stage of the \<^verbatim>\<open>-af\<close> filter chain: \<^verbatim>\<open>atempo=s\<close>, \<^verbatim>\<open>apad=pad_dur=d\<close> and
  \<^verbatim>\<open>atrim=a:b\<close>. The chain is the list of its stages, in the order in which
  \<^verbatim>\<open>",".join\<close> writes them.
\<close>

datatype filtro = Atempo real | Apad real | Atrim real real

datatype erro = ZeroDivisionError | NenhumSegmento

definition py_div :: "real \<Rightarrow> real \<Rightarrow> erro + real" where
  "py_div a b = (if b = 0 then Inl ZeroDivisionError else Inr (a / b))"

subsection \<open>\<^verbatim>\<open>_cadeia_atempo\<close>\<close>

text \<open>
  The \<^verbatim>\<open>while fator_restante > 2.0\<close> loop, on the pair of the remaining factor and
  the stages appended so far.
\<close>

function cadeia_laco :: "real \<Rightarrow> filtro list \<Rightarrow> real \<times> filtro list" where
  "cadeia_laco fator_restante filtros =
     (if fator_restante > 2 then cadeia_laco (fator_restante / 2) (filtros @ [Atempo 2])
      else (fator_restante, filtros))"
  by pat_completeness auto
termination
proof (relation "measure (\<lambda>(r, fs). nat \<lceil>r\<rceil>)")
  show "wf (measure (\<lambda>(r :: real, fs :: filtro list). nat \<lceil>r\<rceil>))" by simp
next
  fix fator_restante :: real and filtros :: "filtro list"
  assume gt: "2 < fator_restante"
  have "fator_restante / 2 \<le> fator_restante - 1" using gt by simp
  then have "\<lceil>fator_restante / 2\<rceil> \<le> \<lceil>fator_restante - 1\<rceil>" by (rule ceiling_mono)
  then have "\<lceil>fator_restante / 2\<rceil> < \<lceil>fator_restante\<rceil>" by simp
  moreover have "0 < \<lceil>fator_restante\<rceil>" using gt by simp
  ultimately show "((fator_restante / 2, filtros @ [Atempo 2]), (fator_restante, filtros))
      \<in> measure (\<lambda>(r, fs). nat \<lceil>r\<rceil>)"
    by simp
qed

declare cadeia_laco.simps [simp del]

definition cadeia_atempo :: "real \<Rightarrow> filtro list" where
  "cadeia_atempo fator_total =
     (case cadeia_laco (max (1 / 2) fator_total) [] of
        (fator_restante, filtros) \<Rightarrow> filtros @ [Atempo (fmt6 fator_restante)])"

text \<open>The stage ratios of a chain, in order.\<close>

fun estagios :: "filtro list \<Rightarrow> real list" where
  "estagios [] = []"
| "estagios (Atempo s # fs) = s # estagios fs"
| "estagios (f # fs) = estagios fs"

text \<open>The durations that the pad and trim stages of a chain carry, in order.\<close>

fun duracoes_pad_trim :: "filtro list \<Rightarrow> real list" where
  "duracoes_pad_trim [] = []"
| "duracoes_pad_trim (Apad d # fs) = d # duracoes_pad_trim fs"
| "duracoes_pad_trim (Atrim a b # fs) = b # duracoes_pad_trim fs"
| "duracoes_pad_trim (f # fs) = duracoes_pad_trim fs"

subsection \<open>\<^verbatim>\<open>_obter_duracao_audio\<close> and \<^verbatim>\<open>_ajustar_segmento_para_janela\<close>\<close>

text \<open>
  The probe is external: its outcome is \<open>None\<close> when the process fails or prints
  something that is no number, and \<open>Some d\<close> when it prints the number \<open>d\<close>.
\<close>

definition obter_duracao_audio :: "real option \<Rightarrow> real" where
  "obter_duracao_audio sonda = (case sonda of None \<Rightarrow> 0 | Some d \<Rightarrow> max 0 d)"

text \<open>
  The synchroniser builds the filter chain and hands it to the transcoder. The model
  returns the chain, or the exception that building it raises.
\<close>

definition ajustar_segmento_para_janela :: "real \<Rightarrow> real option \<Rightarrow> erro + filtro list" where
  "ajustar_segmento_para_janela duracao_alvo0 sonda =
     (let duracao_alvo = max (15 / 100) duracao_alvo0;
          duracao_real = obter_duracao_audio sonda
      in if duracao_real \<le> 0 then
           Inr [Apad (fmt6 duracao_alvo), Atrim 0 (fmt6 duracao_alvo)]
         else if duracao_real > duracao_alvo then
           (case py_div duracao_real duracao_alvo of
              Inl e \<Rightarrow> Inl e
            | Inr fator \<Rightarrow>
                Inr (cadeia_atempo fator
                       @ [Apad (fmt6 duracao_alvo), Atrim 0 (fmt6 duracao_alvo)]))
         else Inr [Apad (fmt6 duracao_alvo), Atrim 0 (fmt6 duracao_alvo)])"

subsection \<open>\<^verbatim>\<open>_normalizar_segmentos\<close>\<close>

text \<open>
  A Python string is the list of its code points. An incoming segment is a dictionary
  whose keys may be missing: \<open>get_text seg\<close> is
  \<^verbatim>\<open>seg.get("text")\<close> and so on, \<open>None\<close> for a missing key (or a \<^verbatim>\<open>None\<close> text).
  A cleaned segment has the three keys (\<open>texto\<close> is its \<^verbatim>\<open>"text"\<close>).
\<close>

type_synonym py_str = "nat list"

record seg_dict =
  get_text :: "py_str option"
  get_start :: "real option"
  get_duration :: "real option"

record segmento =
  texto :: py_str
  start :: real
  duration :: real

text \<open>
  \<^verbatim>\<open>str.strip()\<close> and \<^verbatim>\<open>str.split()\<close> work on the code points that \<^verbatim>\<open>str.isspace()\<close>
  accepts: the controls \<^verbatim>\<open>\t \n \v \f \r\<close>, the separators \<^verbatim>\<open>0x1c\<close> to \<^verbatim>\<open>0x1f\<close>, the space,
  \<^verbatim>\<open>0x85\<close>, the no-break space \<^verbatim>\<open>0xa0\<close>, and the Unicode spaces and line separators above
  them.
\<close>

definition is_space :: "nat \<Rightarrow> bool" where
  "is_space c = (c \<in> set [0x09, 0x0A, 0x0B, 0x0C, 0x0D, 0x1C, 0x1D, 0x1E, 0x1F, 0x20,
                           0x85, 0xA0, 0x1680,
                           0x2000, 0x2001, 0x2002, 0x2003, 0x2004, 0x2005, 0x2006, 0x2007,
                           0x2008, 0x2009, 0x200A, 0x2028, 0x2029, 0x202F, 0x205F, 0x3000])"

definition strip :: "py_str \<Rightarrow> py_str" where
  "strip s = rev (dropWhile is_space (rev (dropWhile is_space s)))"

text \<open>\<^verbatim>\<open>s.split()\<close>: the maximal runs of characters that are not whitespace.\<close>

fun split_laco :: "py_str \<Rightarrow> py_str \<Rightarrow> py_str list" where
  "split_laco palavra [] = (if palavra = [] then [] else [rev palavra])"
| "split_laco palavra (c # cs) =
     (if is_space c then (if palavra = [] then split_laco [] cs
                          else rev palavra # split_laco [] cs)
      else split_laco (c # palavra) cs)"

definition split :: "py_str \<Rightarrow> py_str list" where
  "split s = split_laco [] s"

text \<open>The first loop: drop the segments without text, clamp start and duration at zero.\<close>

fun limpar :: "seg_dict list \<Rightarrow> segmento list" where
  "limpar [] = []"
| "limpar (seg # segmentos) =
     (let texto = strip (case get_text seg of None \<Rightarrow> [] | Some t \<Rightarrow> t)
      in if texto = [] then limpar segmentos
         else \<lparr>texto = texto,
               start = max 0 (case get_start seg of None \<Rightarrow> 0 | Some s \<Rightarrow> s),
               duration = max 0 (case get_duration seg of None \<Rightarrow> 0 | Some d \<Rightarrow> d)\<rparr>
              # limpar segmentos)"

text \<open>
  One round of the second loop, at index \<open>i\<close> of the sorted list, which it updates in
  place.
\<close>

definition passo_duracao :: "nat \<Rightarrow> segmento list \<Rightarrow> segmento list" where
  "passo_duracao i limpos =
     (if duration (limpos ! i) > 0 then limpos
      else if i + 1 < length limpos then
        (let prox = start (limpos ! (i + 1))
         in limpos[i := (limpos ! i)\<lparr>duration := max (15 / 100) (prox - start (limpos ! i))\<rparr>])
      else
        (let palavras = length (split (texto (limpos ! i)))
         in limpos[i := (limpos ! i)\<lparr>duration := max (6 / 10) (real palavras / (28 / 10))\<rparr>]))"

text \<open>
  The duration that this round gives to the segment at index \<open>i\<close> when it has none: the
  distance to the next start, or the estimate from the number of words for the last one.
\<close>

definition duracao_inferida :: "segmento list \<Rightarrow> nat \<Rightarrow> real" where
  "duracao_inferida limpos i =
     (if i + 1 < length limpos then max (15 / 100) (start (limpos ! (i + 1)) - start (limpos ! i))
      else max (6 / 10) (real (length (split (texto (limpos ! i)))) / (28 / 10)))"

text \<open>What the second loop leaves at index \<open>i\<close> of the sorted list \<open>limpos\<close>.\<close>

definition reparado :: "segmento list \<Rightarrow> nat \<Rightarrow> segmento" where
  "reparado limpos i =
     (if duration (limpos ! i) > 0 then limpos ! i
      else (limpos ! i)\<lparr>duration := duracao_inferida limpos i\<rparr>)"

text \<open>\<^verbatim>\<open>list.sort\<close> is stable, as \<open>sort_key\<close> is.\<close>

definition normalizar_segmentos :: "seg_dict list \<Rightarrow> segmento list" where
  "normalizar_segmentos segmentos =
     (let limpos = sort_key start (limpar segmentos)
      in if limpos = [] then limpos
         else fold passo_duracao [0..<length limpos] limpos)"

text \<open>A cleaned segment read again as a dictionary, all three keys present.\<close>

definition como_dict :: "segmento \<Rightarrow> seg_dict" where
  "como_dict s = \<lparr>get_text = Some (texto s), get_start = Some (start s),
                  get_duration = Some (duration s)\<rparr>"

subsection \<open>\<^verbatim>\<open>_gerar_audio_completo\<close> and \<^verbatim>\<open>_concatenar_simples\<close>\<close>

text \<open>The files of the scratch directory, by the names the code gives them.\<close>

datatype arquivo =
    SegRaw nat
  | SegSync nat
  | SilencioBase
  | MixFilter
  | DublagemCompleta
  | ConcatList
  | DublagemConcat

text \<open>
  An entry of \<^verbatim>\<open>arquivos_segmento\<close>; \<open>info_start\<close> and \<open>info_duration\<close> are its keys
  \<^verbatim>\<open>"start"\<close> and \<^verbatim>\<open>"duration"\<close>, copied from the segment.
\<close>

record seg_info =
  arquivo :: arquivo
  info_start :: real
  info_duration :: real
  index :: nat

text \<open>
  What the collaborators do in one run: whether synthesis or the launch of the transcoder
  raises an exception for segment \<open>i\<close>, what the probe finds for it, the exit status of
  the transcoder that syncs it, and the exit status of the joint mix.
\<close>

record ambiente =
  excecao_externa :: "nat \<Rightarrow> bool"
  sonda :: "nat \<Rightarrow> real option"
  sync_returncode :: "nat \<Rightarrow> int"
  mix_returncode :: int

text \<open>
  The loop \<^verbatim>\<open>for i, seg in enumerate(segmentos)\<close>: any exception raised inside the
  \<^verbatim>\<open>try\<close> ends this round only (\<^verbatim>\<open>continue\<close>), and nothing is appended for it. The
  result of \<^verbatim>\<open>subprocess.run\<close> in \<^verbatim>\<open>_ajustar_segmento_para_janela\<close> is dropped, so
  \<open>sync_returncode\<close> is not read: the clip is appended whatever the transcoder's status.
\<close>

fun laco_sync :: "ambiente \<Rightarrow> nat \<Rightarrow> segmento list \<Rightarrow> seg_info list" where
  "laco_sync amb i [] = []"
| "laco_sync amb i (seg # segmentos) =
     (if excecao_externa amb i then laco_sync amb (i + 1) segmentos
      else (case ajustar_segmento_para_janela (duration seg) (sonda amb i) of
              Inl e \<Rightarrow> laco_sync amb (i + 1) segmentos
            | Inr filtro \<Rightarrow>
                \<lparr>arquivo = SegSync i, info_start = start seg, info_duration = duration seg,
                 index = i\<rparr> # laco_sync amb (i + 1) segmentos))"

text \<open>\<^verbatim>\<open>max(..., default=d)\<close> over a list.\<close>

definition max_default :: "real \<Rightarrow> real list \<Rightarrow> real" where
  "max_default d xs = (case xs of [] \<Rightarrow> d | x # r \<Rightarrow> fold max r x)"

text \<open>\<^verbatim>\<open>int(x)\<close> on a float: truncation towards zero.\<close>

definition py_int :: "real \<Rightarrow> int" where
  "py_int x = (if 0 \<le> x then \<lfloor>x\<rfloor> else \<lceil>x\<rceil>)"

text \<open>
  The product of two doubles is the double nearest to the exact product, a tie going to
  the even significand. A double has 53 significant bits: in the binade
  \<open>2\<^sup>e \<le> \<bar>x\<bar> < 2\<^sup>e\<^sup>+\<^sup>1\<close> the doubles are the multiples of \<open>2\<^sup>e\<^sup>-\<^sup>5\<^sup>2\<close>, and below \<open>2\<^sup>-\<^sup>1\<^sup>0\<^sup>2\<^sup>2\<close> the
  multiples of \<open>2\<^sup>-\<^sup>1\<^sup>0\<^sup>7\<^sup>4\<close>. Overflow is not modelled.
\<close>

definition dois_elevado :: "int \<Rightarrow> real" where
  "dois_elevado k = (if 0 \<le> k then 2 ^ nat k else 1 / 2 ^ nat (- k))"

definition expoente :: "real \<Rightarrow> int" where
  "expoente x = max (- 1022) \<lfloor>log 2 \<bar>x\<bar>\<rfloor>"

definition arredondar_double :: "real \<Rightarrow> real" where
  "arredondar_double x =
     (if x = 0 then 0
      else (let ulp = dois_elevado (expoente x - 52)
            in of_int (round_half_even (x / ulp)) * ulp))"

definition mul_double :: "real \<Rightarrow> real \<Rightarrow> real" where
  "mul_double a b = arredondar_double (a * b)"

definition delay_ms :: "seg_info \<Rightarrow> int" where
  "delay_ms seg_info = py_int (mul_double (info_start seg_info) 1000)"

text \<open>
  What one run leaves behind: the length asked for the silent base track, the delay of
  every overlaid clip, the number of inputs of the mix, the lines of the concatenation
  list when the fallback ran, and the file returned.
\<close>

record execucao =
  duracao_total :: real
  delays :: "(arquivo \<times> int) list"
  amix_inputs :: nat
  concat_list :: "arquivo list option"
  retorno :: arquivo

definition concatenar_simples :: "seg_info list \<Rightarrow> arquivo list \<times> arquivo" where
  "concatenar_simples arquivos_segmento = (map arquivo arquivos_segmento, DublagemConcat)"

definition gerar_audio_completo :: "ambiente \<Rightarrow> seg_dict list \<Rightarrow> erro + execucao" where
  "gerar_audio_completo amb segmentos0 =
     (let segmentos = normalizar_segmentos segmentos0;
          arquivos_segmento = laco_sync amb 0 segmentos
      in if arquivos_segmento = [] then Inl NenhumSegmento
         else
           (let total = max_default 0 (map (\<lambda>seg. start seg + duration seg) segmentos) + 1;
                atrasos = map (\<lambda>seg_info. (arquivo seg_info, delay_ms seg_info))
                            arquivos_segmento;
                entradas = length arquivos_segmento + 1
            in if mix_returncode amb \<noteq> 0 then
                 (case concatenar_simples arquivos_segmento of
                    (lista, audio_concat) \<Rightarrow>
                      Inr \<lparr>duracao_total = total, delays = atrasos, amix_inputs = entradas,
                           concat_list = Some lista, retorno = audio_concat\<rparr>)
               else
                 Inr \<lparr>duracao_total = total, delays = atrasos, amix_inputs = entradas,
                      concat_list = None, retorno = DublagemCompleta\<rparr>))"

text \<open>The latest end, start plus duration, among the clips that were synced.\<close>

definition fim_dos_sincronizados :: "seg_info list \<Rightarrow> real" where
  "fim_dos_sincronizados arquivos_segmento =
     max_default 0 (map (\<lambda>c. info_start c + info_duration c) arquivos_segmento)"


section \<open>Properties\<close>

subsection \<open>Six-decimal printing\<close>

lemma round_half_even_bounds:
  "\<bar>of_int (round_half_even x) - x\<bar> \<le> 1 / 2"
  unfolding round_half_even_def Let_def
  by (auto simp: abs_if; linarith)

lemma round_half_even_ge: "of_int k \<le> x \<Longrightarrow> k \<le> round_half_even x"
  unfolding round_half_even_def Let_def
  by (auto simp: le_floor_iff; linarith)

lemma round_half_even_le: "x \<le> of_int k \<Longrightarrow> round_half_even x \<le> k"
  unfolding round_half_even_def Let_def
  by (auto; linarith)

lemma fmt6_error: "\<bar>fmt6 x - x\<bar> \<le> 1 / 2000000"
proof -
  have "\<bar>of_int (round_half_even (x * 1000000)) - x * 1000000\<bar> \<le> 1 / 2"
    by (rule round_half_even_bounds)
  then show ?thesis unfolding fmt6_def by (simp add: abs_if field_simps split: if_splits)
qed

lemma fmt6_ge: "of_int k / 1000000 \<le> x \<Longrightarrow> of_int k / 1000000 \<le> fmt6 x"
proof -
  assume "of_int k / 1000000 \<le> x"
  then have "of_int k \<le> x * 1000000" by (simp add: field_simps)
  then have "k \<le> round_half_even (x * 1000000)" by (rule round_half_even_ge)
  then have "(of_int k :: real) \<le> of_int (round_half_even (x * 1000000))" by simp
  then show ?thesis unfolding fmt6_def by (simp add: field_simps)
qed

lemma fmt6_le: "x \<le> of_int k / 1000000 \<Longrightarrow> fmt6 x \<le> of_int k / 1000000"
proof -
  assume "x \<le> of_int k / 1000000"
  then have "x * 1000000 \<le> of_int k" by (simp add: field_simps)
  then have "round_half_even (x * 1000000) \<le> k" by (rule round_half_even_le)
  then have "(of_int (round_half_even (x * 1000000)) :: real) \<le> of_int k" by simp
  then show ?thesis unfolding fmt6_def by (simp add: field_simps)
qed

lemma fmt6_ge_half: "1 / 2 \<le> x \<Longrightarrow> 1 / 2 \<le> fmt6 x"
  using fmt6_ge [of 500000 x] by simp

lemma fmt6_le_two: "x \<le> 2 \<Longrightarrow> fmt6 x \<le> 2"
  using fmt6_le [of x 2000000] by simp

lemma fmt6_ge_015: "15 / 100 \<le> x \<Longrightarrow> 15 / 100 \<le> fmt6 x"
  using fmt6_ge [of 150000 x] by simp

subsection \<open>The stage chain\<close>

lemma cadeia_laco_shape:
  "cadeia_laco r fs = (r', fs') \<Longrightarrow>
     \<exists>k. fs' = fs @ replicate k (Atempo 2) \<and> r = 2 ^ k * r' \<and> r' \<le> 2 \<and> (1 / 2 \<le> r \<longrightarrow> 1 / 2 \<le> r')"
proof (induction r fs arbitrary: r' fs' rule: cadeia_laco.induct)
  case (1 r fs)
  show ?case
  proof (cases "r > 2")
    case True
    with "1.prems" have "cadeia_laco (r / 2) (fs @ [Atempo 2]) = (r', fs')"
      by (simp add: cadeia_laco.simps [of r])
    from "1.IH" [OF True this] obtain k where
      k: "fs' = (fs @ [Atempo 2]) @ replicate k (Atempo 2)" "r / 2 = 2 ^ k * r'" "r' \<le> 2"
         "1 / 2 \<le> r / 2 \<longrightarrow> 1 / 2 \<le> r'"
      by blast
    have "fs' = fs @ replicate (Suc k) (Atempo 2)" using k(1) by simp
    moreover have "r = 2 ^ Suc k * r'" using k(2) by simp
    moreover have "1 / 2 \<le> r'" using k(4) True by simp
    ultimately show ?thesis using k(3) by blast
  next
    case False
    with "1.prems" have "r' = r" "fs' = fs" by (simp_all add: cadeia_laco.simps [of r])
    then have "fs' = fs @ replicate 0 (Atempo 2) \<and> r = 2 ^ 0 * r' \<and> r' \<le> 2 \<and> (1 / 2 \<le> r \<longrightarrow> 1 / 2 \<le> r')"
      using False by simp
    then show ?thesis by blast
  qed
qed

lemma estagios_append: "estagios (xs @ ys) = estagios xs @ estagios ys"
  by (induction xs rule: estagios.induct) simp_all

lemma estagios_replicate: "estagios (replicate k (Atempo s)) = replicate k s"
  by (induction k) simp_all

lemma cadeia_atempo_shape:
  "\<exists>k r. cadeia_atempo R = replicate k (Atempo 2) @ [Atempo (fmt6 r)]
        \<and> max (1 / 2) R = 2 ^ k * r \<and> 1 / 2 \<le> r \<and> r \<le> 2"
proof -
  obtain r fs where c: "cadeia_laco (max (1 / 2) R) [] = (r, fs)" by (cases "cadeia_laco (max (1 / 2) R) []")
  from cadeia_laco_shape [OF c] obtain k where
    k: "fs = replicate k (Atempo 2)" "max (1 / 2) R = 2 ^ k * r" "r \<le> 2" "1 / 2 \<le> r"
    by auto
  have "cadeia_atempo R = replicate k (Atempo 2) @ [Atempo (fmt6 r)]"
    using c k(1) by (simp add: cadeia_atempo_def)
  then show ?thesis using k by blast
qed

lemma prod_list_replicate2: "prod_list (replicate k (2::real)) = 2 ^ k"
  by (induction k) simp_all

text \<open>
  Claim C1. For every tempo ratio \<open>R > 0\<close> the chain of \<^verbatim>\<open>_cadeia_atempo\<close> is not empty
  (also at \<open>R = 1\<close>), every stage lies between 0.5 and 2.0, and for \<open>R\<close> between 0.5
  and 100 the product of the stages, as printed with six decimals, is \<open>R\<close> within a
  relative tolerance of \<open>10\<^sup>-\<^sup>6\<close>; for \<open>R = 2.5\<close> the chain is \<open>[2.0, 1.25]\<close>.
\<close>

theorem cadeia_atempo_correct:
  assumes "0 < R"
  shows "cadeia_atempo R \<noteq> []
       \<and> estagios (cadeia_atempo R) \<noteq> []
       \<and> (\<forall>s \<in> set (estagios (cadeia_atempo R)). 1 / 2 \<le> s \<and> s \<le> 2)
       \<and> (1 / 2 \<le> R \<and> R \<le> 100 \<longrightarrow>
            \<bar>prod_list (estagios (cadeia_atempo R)) - R\<bar> \<le> R / 1000000)
       \<and> estagios (cadeia_atempo (5 / 2)) = [2, 5 / 4]"
proof -
  obtain k r where s: "cadeia_atempo R = replicate k (Atempo 2) @ [Atempo (fmt6 r)]"
    "max (1 / 2) R = 2 ^ k * r" "1 / 2 \<le> r" "r \<le> 2"
    using cadeia_atempo_shape by blast
  have e: "estagios (cadeia_atempo R) = replicate k 2 @ [fmt6 r]"
    using s(1) by (simp add: estagios_append estagios_replicate)
  have a: "cadeia_atempo R \<noteq> []" using s(1) by simp
  have b: "estagios (cadeia_atempo R) \<noteq> []" using e by simp
  have c: "\<forall>s \<in> set (estagios (cadeia_atempo R)). 1 / 2 \<le> s \<and> s \<le> 2"
    using e fmt6_ge_half [OF s(3)] fmt6_le_two [OF s(4)] by auto
  have d: "\<bar>prod_list (estagios (cadeia_atempo R)) - R\<bar> \<le> R / 1000000" if "1 / 2 \<le> R"
  proof -
    have R: "R = 2 ^ k * r" using s(2) that by simp
    have "prod_list (estagios (cadeia_atempo R)) - R = 2 ^ k * (fmt6 r - r)"
      using e R by (simp add: prod_list_replicate2 algebra_simps)
    then have "\<bar>prod_list (estagios (cadeia_atempo R)) - R\<bar> = 2 ^ k * \<bar>fmt6 r - r\<bar>"
      by (simp add: abs_mult)
    also have "\<dots> \<le> 2 ^ k * (1 / 2000000)"
      by (rule mult_left_mono [OF fmt6_error]) simp
    also have "\<dots> \<le> 2 ^ k * (r / 1000000)"
      by (rule mult_left_mono) (use s(3) in simp_all)
    also have "\<dots> = R / 1000000" using R by simp
    finally show ?thesis .
  qed
  have f: "estagios (cadeia_atempo (5 / 2)) = [2, 5 / 4]"
    by (simp add: cadeia_atempo_def cadeia_laco.simps fmt6_def round_half_even_def)
  show ?thesis using a b c d f by blast
qed

theorem cadeia_atempo_correct_witness:
  "(0::real) < 1
   \<and> estagios (cadeia_atempo 1) = [1]
   \<and> \<bar>prod_list (estagios (cadeia_atempo 1)) - 1\<bar> \<le> 1 / 1000000"
proof -
  have e: "estagios (cadeia_atempo 1) = [1]"
    by (simp add: cadeia_atempo_def cadeia_laco.simps fmt6_def round_half_even_def)
  show ?thesis using cadeia_atempo_correct [of 1] e by simp
qed


subsection \<open>The synchroniser's filter plan\<close>

lemma obter_duracao_audio_nonneg: "0 \<le> obter_duracao_audio p"
  by (simp add: obter_duracao_audio_def split: option.split)

lemma ajustar_plan:
  "ajustar_segmento_para_janela T p =
     Inr ((if obter_duracao_audio p > max (15 / 100) T
           then cadeia_atempo (obter_duracao_audio p / max (15 / 100) T) else [])
          @ [Apad (fmt6 (max (15 / 100) T)), Atrim 0 (fmt6 (max (15 / 100) T))])"
proof -
  have pos: "max (15 / 100) T \<noteq> 0"
    by (simp add: max_def)
  have small: "\<not> obter_duracao_audio p > max (15 / 100) T" if "obter_duracao_audio p \<le> 0"
    using that by (simp add: max_def split: if_splits)
  show ?thesis
    using pos small
    by (simp add: ajustar_segmento_para_janela_def Let_def py_div_def)
qed


lemma duracoes_pad_trim_append:
  "duracoes_pad_trim (xs @ ys) = duracoes_pad_trim xs @ duracoes_pad_trim ys"
  by (induction xs rule: duracoes_pad_trim.induct) simp_all

lemma duracoes_pad_trim_replicate: "duracoes_pad_trim (replicate k (Atempo s)) = []"
  by (induction k) simp_all

lemma duracoes_pad_trim_cadeia: "duracoes_pad_trim (cadeia_atempo R) = []"
proof -
  obtain k r where "cadeia_atempo R = replicate k (Atempo 2) @ [Atempo (fmt6 r)]"
    using cadeia_atempo_shape by blast
  then show ?thesis by (simp add: duracoes_pad_trim_append duracoes_pad_trim_replicate)
qed




text \<open>
  Claim C9. For every input target, zero, negative and below 0.15 included, the
  synchroniser works with \<open>max 0.15 target\<close> only: its plan is the plan of the clamped
  target, the division of the real duration by the target never raises
  \<^verbatim>\<open>ZeroDivisionError\<close>, so a plan is always returned, and the pad and trim durations it
  carries are both at least 0.15.
\<close>

theorem ajustar_clamp:
  "ajustar_segmento_para_janela T p = ajustar_segmento_para_janela (max (15 / 100) T) p
   \<and> py_div (obter_duracao_audio p) (max (15 / 100) T)
       = Inr (obter_duracao_audio p / max (15 / 100) T)
   \<and> (\<exists>filtro. ajustar_segmento_para_janela T p = Inr filtro
         \<and> duracoes_pad_trim filtro = [fmt6 (max (15 / 100) T), fmt6 (max (15 / 100) T)]
         \<and> 15 / 100 \<le> fmt6 (max (15 / 100) T))"
proof -
  define alvo where "alvo = max (15 / 100) T"
  define dreal where "dreal = obter_duracao_audio p"
  define filtro where
    "filtro = (if dreal > alvo then cadeia_atempo (dreal / alvo) else [])
               @ [Apad (fmt6 alvo), Atrim 0 (fmt6 alvo)]"
  have idem: "max (15 / 100) alvo = alvo" unfolding alvo_def by simp
  have plan: "ajustar_segmento_para_janela T p = Inr filtro"
    unfolding alvo_def dreal_def filtro_def by (rule ajustar_plan)
  have "ajustar_segmento_para_janela alvo p = Inr filtro"
    using ajustar_plan [of alvo p] unfolding idem dreal_def filtro_def .
  then have a: "ajustar_segmento_para_janela T p = ajustar_segmento_para_janela alvo p"
    using plan by simp
  have "alvo \<noteq> 0" unfolding alvo_def by (simp add: max_def)
  then have b: "py_div dreal alvo = Inr (dreal / alvo)"
    by (simp add: py_div_def)
  have c: "15 / 100 \<le> fmt6 alvo"
    unfolding alvo_def by (rule fmt6_ge_015) simp
  have d: "duracoes_pad_trim filtro = [fmt6 alvo, fmt6 alvo]"
    unfolding filtro_def by (simp add: duracoes_pad_trim_append duracoes_pad_trim_cadeia)
  have "\<exists>filtro. ajustar_segmento_para_janela T p = Inr filtro
         \<and> duracoes_pad_trim filtro = [fmt6 alvo, fmt6 alvo] \<and> 15 / 100 \<le> fmt6 alvo"
    using plan c d by blast
  with a b show ?thesis unfolding alvo_def dreal_def by blast
qed

subsection \<open>The normaliser\<close>

lemma passo_duracao_alt:
  "passo_duracao i l =
     (if duration (l ! i) > 0 then l else l[i := (l ! i)\<lparr>duration := duracao_inferida l i\<rparr>])"
  by (simp add: passo_duracao_def duracao_inferida_def Let_def)

lemma fold_passo_duracao:
  "k \<le> length l \<Longrightarrow>
     fold passo_duracao [0..<k] l = map (\<lambda>i. if i < k then reparado l i else l ! i) [0..<length l]"
proof (induction k)
  case 0
  show ?case by (simp add: map_nth)
next
  case (Suc k)
  let ?m = "fold passo_duracao [0..<k] l"
  have m: "?m = map (\<lambda>i. if i < k then reparado l i else l ! i) [0..<length l]"
    using Suc by simp
  have len: "length ?m = length l" using m by simp
  have k: "k < length l" using Suc.prems by simp
  have mk: "?m ! k = l ! k" using m k by simp
  have mk1: "k + 1 < length l \<Longrightarrow> ?m ! (k + 1) = l ! (k + 1)" using m by simp
  have inf: "duracao_inferida ?m k = duracao_inferida l k"
    using mk mk1 len by (simp add: duracao_inferida_def)
  have step: "passo_duracao k ?m = ?m[k := reparado l k]"
    using mk inf by (simp add: passo_duracao_alt reparado_def) (metis list_update_id)
  have "fold passo_duracao [0..<Suc k] l = passo_duracao k ?m" by simp
  also have "\<dots> = ?m[k := reparado l k]" by (rule step)
  also have "\<dots> = map (\<lambda>i. if i < Suc k then reparado l i else l ! i) [0..<length l]"
    by (rule nth_equalityI) (use len k m in \<open>auto simp: nth_list_update less_Suc_eq\<close>)
  finally show ?case .
qed

lemma normalizar_nth:
  "normalizar_segmentos segs = map (reparado (sort_key start (limpar segs))) [0..<length (sort_key start (limpar segs))]"
  using fold_passo_duracao [of "length (sort_key start (limpar segs))" "sort_key start (limpar segs)"]
  by (simp add: normalizar_segmentos_def Let_def del: length_sort)

lemma length_normalizar: "length (normalizar_segmentos segs) = length (limpar segs)"
  by (simp add: normalizar_nth)

lemma nth_normalizar:
  "i < length (limpar segs) \<Longrightarrow>
     normalizar_segmentos segs ! i = reparado (sort_key start (limpar segs)) i"
  by (simp add: normalizar_nth)

lemma duracao_inferida_ge: "15 / 100 \<le> duracao_inferida l i"
  by (simp add: duracao_inferida_def max_def)

lemma reparado_fields:
  "texto (reparado l i) = texto (l ! i)" "start (reparado l i) = start (l ! i)"
  by (simp_all add: reparado_def)

lemma reparado_duration_pos: "0 < duration (reparado l i)"
  using duracao_inferida_ge [of l i] by (simp add: reparado_def)

lemma strip_last: "strip s \<noteq> [] \<Longrightarrow> \<not> is_space (last (strip s))"
proof -
  assume ne: "strip s \<noteq> []"
  let ?u = "dropWhile is_space (rev (dropWhile is_space s))"
  have u: "?u \<noteq> []" using ne by (simp add: strip_def)
  then have "\<not> is_space (hd ?u)" by (rule hd_dropWhile)
  moreover have "last (strip s) = hd ?u" using u by (simp add: strip_def last_rev)
  ultimately show ?thesis by simp
qed

lemma strip_hd: "strip s \<noteq> [] \<Longrightarrow> \<not> is_space (hd (strip s))"
proof -
  assume ne: "strip s \<noteq> []"
  let ?t = "dropWhile is_space s"
  let ?u = "dropWhile is_space (rev ?t)"
  have u: "?u \<noteq> []" using ne by (simp add: strip_def)
  have t: "?t \<noteq> []"
  proof
    assume e: "?t = []"
    have "?u = []" unfolding e by simp
    with u show False by simp
  qed
  have "rev ?t = takeWhile is_space (rev ?t) @ ?u" by simp
  then have "?t = rev ?u @ rev (takeWhile is_space (rev ?t))"
    by (metis rev_append rev_rev_ident)
  then have "hd ?t = hd (rev ?u)" using u by (metis hd_append2 rev_is_Nil_conv)
  moreover have "\<not> is_space (hd ?t)" using t by (rule hd_dropWhile)
  ultimately show ?thesis by (simp add: strip_def)
qed

lemma strip_id:
  assumes "s \<noteq> []" "\<not> is_space (hd s)" "\<not> is_space (last s)"
  shows "strip s = s"
proof -
  have 1: "dropWhile is_space s = s" using assms(1,2) by (cases s) simp_all
  have "rev s \<noteq> []" "\<not> is_space (hd (rev s))" using assms(1,3) by (simp_all add: hd_rev)
  then have 2: "dropWhile is_space (rev s) = rev s" by (cases "rev s") simp_all
  show ?thesis by (simp add: strip_def 1 2)
qed

lemma strip_idem: "strip (strip s) = strip s"
proof (cases "strip s = []")
  case True
  have "strip [] = []" by (simp add: strip_def)
  with True show ?thesis by simp
next
  case False
  then show ?thesis by (intro strip_id strip_hd strip_last)
qed

lemma limpar_props:
  "s \<in> set (limpar segs) \<Longrightarrow>
     texto s \<noteq> [] \<and> strip (texto s) = texto s \<and> 0 \<le> start s \<and> 0 \<le> duration s"
  by (induction segs) (auto simp: Let_def strip_idem split: if_splits)

lemma limpar_como_dict:
  "(\<And>s. s \<in> set xs \<Longrightarrow> texto s \<noteq> [] \<and> strip (texto s) = texto s \<and> 0 \<le> start s \<and> 0 \<le> duration s)
     \<Longrightarrow> limpar (map como_dict xs) = xs"
  by (induction xs) (simp_all add: como_dict_def Let_def)


lemma normalizar_set_props:
  assumes "s \<in> set (normalizar_segmentos segs)"
  shows "texto s \<noteq> [] \<and> strip (texto s) = texto s \<and> 0 \<le> start s \<and> 0 < duration s"
proof -
  let ?l = "sort_key start (limpar segs)"
  from assms obtain i where i: "i < length ?l" "s = reparado ?l i"
    by (auto simp: normalizar_nth simp del: length_sort)
  have "?l ! i \<in> set ?l" using i(1) by (rule nth_mem)
  then have "?l ! i \<in> set (limpar segs)" by simp
  then have "texto (?l ! i) \<noteq> [] \<and> strip (texto (?l ! i)) = texto (?l ! i) \<and> 0 \<le> start (?l ! i)"
    using limpar_props by blast
  then show ?thesis using i(2) reparado_duration_pos [of ?l i] by (simp add: reparado_fields)
qed

lemma map_start_normalizar:
  "map start (normalizar_segmentos segs) = map start (sort_key start (limpar segs))"
  by (rule nth_equalityI) (simp_all add: normalizar_nth reparado_fields del: length_sort)

lemma sorted_normalizar: "sorted (map start (normalizar_segmentos segs))"
  by (simp add: map_start_normalizar)

lemma normalizar_idem_aux:
  assumes "\<And>s. s \<in> set xs \<Longrightarrow> 0 < duration s"
  shows "map (reparado xs) [0..<length xs] = xs"
  by (rule nth_equalityI) (use assms in \<open>simp_all add: reparado_def\<close>)


lemma limpar_map_filter:
  "limpar segs =
     map (\<lambda>seg. \<lparr>texto = strip (case get_text seg of None \<Rightarrow> [] | Some t \<Rightarrow> t),
                  start = max 0 (case get_start seg of None \<Rightarrow> 0 | Some s \<Rightarrow> s),
                  duration = max 0 (case get_duration seg of None \<Rightarrow> 0 | Some d \<Rightarrow> d)\<rparr>)
         (filter (\<lambda>seg. strip (case get_text seg of None \<Rightarrow> [] | Some t \<Rightarrow> t) \<noteq> []) segs)"
  by (induction segs) (simp_all add: Let_def)

text \<open>
  Claim C4, as amended. For every input list the output of \<^verbatim>\<open>_normalizar_segmentos\<close>
  is sorted ascending by start, has no entry whose text is empty or only whitespace (each
  text has a code point that is no whitespace, and stripping it leaves it as it is),
  every start is at least 0 and every duration is positive. A duration that arrived
  positive is kept as it arrived, also when it is below 0.15; a duration that arrived
  missing or not positive is replaced by one of at least 0.15. The index \<open>i\<close> runs over
  the cleaned list sorted by start, which the second loop updates in place.
\<close>

theorem normalizar_invariants:
  "sorted (map start (normalizar_segmentos segs))
   \<and> (\<forall>s \<in> set (normalizar_segmentos segs).
         texto s \<noteq> [] \<and> strip (texto s) \<noteq> [] \<and> (\<exists>c \<in> set (texto s). \<not> is_space c)
         \<and> 0 \<le> start s \<and> 0 < duration s)
   \<and> (\<forall>i < length (normalizar_segmentos segs).
         (0 < duration (sort_key start (limpar segs) ! i) \<longrightarrow>
            duration (normalizar_segmentos segs ! i) = duration (sort_key start (limpar segs) ! i))
       \<and> (duration (sort_key start (limpar segs) ! i) \<le> 0 \<longrightarrow>
            15 / 100 \<le> duration (normalizar_segmentos segs ! i)))"
proof -
  have a: "sorted (map start (normalizar_segmentos segs))" by (rule sorted_normalizar)
  have b: "texto s \<noteq> [] \<and> strip (texto s) \<noteq> [] \<and> (\<exists>c \<in> set (texto s). \<not> is_space c)
         \<and> 0 \<le> start s \<and> 0 < duration s"
    if "s \<in> set (normalizar_segmentos segs)" for s
  proof -
    have p: "texto s \<noteq> []" "strip (texto s) = texto s" "0 \<le> start s" "0 < duration s"
      using normalizar_set_props [OF that] by simp_all
    have "\<not> is_space (hd (strip (texto s)))" by (rule strip_hd) (simp add: p)
    then have "\<not> is_space (hd (texto s))" by (simp add: p)
    moreover have "hd (texto s) \<in> set (texto s)" using p(1) by simp
    ultimately have "\<exists>c \<in> set (texto s). \<not> is_space c" by blast
    then show ?thesis using p by simp
  qed
  have c: "\<forall>i < length (normalizar_segmentos segs).
         (0 < duration (sort_key start (limpar segs) ! i) \<longrightarrow>
            duration (normalizar_segmentos segs ! i) = duration (sort_key start (limpar segs) ! i))
       \<and> (duration (sort_key start (limpar segs) ! i) \<le> 0 \<longrightarrow>
            15 / 100 \<le> duration (normalizar_segmentos segs ! i))"
    using duracao_inferida_ge
    by (simp add: length_normalizar nth_normalizar reparado_def)
  show ?thesis using a b c by blast
qed

text \<open>
  Claim C4 as stated fails: a segment that arrives with the positive duration 0.05 leaves
  the normaliser with the duration 0.05, below 0.15.
\<close>

theorem normalizar_invariants_counterexample:
  "normalizar_segmentos
     [\<lparr>get_text = Some (map of_char ''a''), get_start = Some 0, get_duration = Some (1 / 20)\<rparr>]
     = [\<lparr>texto = map of_char ''a'', start = 0, duration = 1 / 20\<rparr>]
   \<and> \<not> 15 / 100 \<le> duration (normalizar_segmentos
       [\<lparr>get_text = Some (map of_char ''a''), get_start = Some 0, get_duration = Some (1 / 20)\<rparr>] ! 0)"
  by (simp add: normalizar_nth reparado_def duracao_inferida_def strip_def is_space_def split_def upt_rec)

text \<open>
  The amended claim C4 at a list of four segments: one whose text is a no-break space, an
  em space and a space, one with a positive duration below 0.15, two without a positive
  duration.
\<close>

theorem normalizar_invariants_witness:
  "normalizar_segmentos
     [\<lparr>get_text = Some (map of_char ''oi  mundo ''), get_start = Some 4, get_duration = None\<rparr>,
      \<lparr>get_text = Some (map of_char ''b''), get_start = Some 3, get_duration = Some 0\<rparr>,
      \<lparr>get_text = Some (map of_char ''c''), get_start = Some 7, get_duration = Some (1 / 20)\<rparr>,
      \<lparr>get_text = Some [0xA0, 0x2003, 0x20], get_start = Some 1, get_duration = Some 1\<rparr>]
     = [\<lparr>texto = map of_char ''b'', start = 3, duration = 1\<rparr>,
        \<lparr>texto = map of_char ''oi  mundo'', start = 4, duration = 3\<rparr>,
        \<lparr>texto = map of_char ''c'', start = 7, duration = 1 / 20\<rparr>]
   \<and> sorted (map start (normalizar_segmentos
       [\<lparr>get_text = Some (map of_char ''oi  mundo ''), get_start = Some 4, get_duration = None\<rparr>,
        \<lparr>get_text = Some (map of_char ''b''), get_start = Some 3, get_duration = Some 0\<rparr>,
        \<lparr>get_text = Some (map of_char ''c''), get_start = Some 7, get_duration = Some (1 / 20)\<rparr>,
        \<lparr>get_text = Some [0xA0, 0x2003, 0x20], get_start = Some 1, get_duration = Some 1\<rparr>]))"
  using normalizar_invariants [of
     "[\<lparr>get_text = Some (map of_char ''oi  mundo ''), get_start = Some 4, get_duration = None\<rparr>,
      \<lparr>get_text = Some (map of_char ''b''), get_start = Some 3, get_duration = Some 0\<rparr>,
      \<lparr>get_text = Some (map of_char ''c''), get_start = Some 7, get_duration = Some (1 / 20)\<rparr>,
      \<lparr>get_text = Some [0xA0, 0x2003, 0x20], get_start = Some 1, get_duration = Some 1\<rparr>]"]
  by (simp add: normalizar_nth reparado_def duracao_inferida_def strip_def is_space_def split_def upt_rec)

text \<open>
  Claim C6. The cleaned duration of a segment is \<open>max 0\<close> of what arrived, 0 when the key
  is missing, so it is at most 0 exactly for the segments whose duration is missing or
  not positive. For each such segment, at index \<open>i\<close> of the list sorted by start, the
  normaliser sets the duration to the next segment's start minus its own, floored at 0.15,
  when a next segment exists, and otherwise to the number of words divided by 2.8, floored
  at 0.6. For the input \<open>[{"a", 0, 2}, {"b", 3, 0}]\<close> the second duration is the word
  estimate 0.6.
\<close>

theorem normalizar_infers_duration:
  "length (normalizar_segmentos segs) = length (sort_key start (limpar segs))
   \<and> map duration (limpar segs) =
       map (\<lambda>seg. max 0 (case get_duration seg of None \<Rightarrow> 0 | Some d \<Rightarrow> d))
         (filter (\<lambda>seg. strip (case get_text seg of None \<Rightarrow> [] | Some t \<Rightarrow> t) \<noteq> []) segs)
   \<and> (\<forall>i < length (normalizar_segmentos segs).
        duration (sort_key start (limpar segs) ! i) \<le> 0 \<longrightarrow>
          duration (normalizar_segmentos segs ! i) =
            (if i + 1 < length (normalizar_segmentos segs)
             then max (15 / 100) (start (normalizar_segmentos segs ! (i + 1))
                                   - start (normalizar_segmentos segs ! i))
             else max (6 / 10)
                    (real (length (split (texto (normalizar_segmentos segs ! i)))) / (28 / 10))))
   \<and> normalizar_segmentos
       [\<lparr>get_text = Some (map of_char ''a''), get_start = Some 0, get_duration = Some 2\<rparr>,
        \<lparr>get_text = Some (map of_char ''b''), get_start = Some 3, get_duration = Some 0\<rparr>]
     = [\<lparr>texto = map of_char ''a'', start = 0, duration = 2\<rparr>,
        \<lparr>texto = map of_char ''b'', start = 3, duration = 6 / 10\<rparr>]"
proof -
  let ?l = "sort_key start (limpar segs)"
  let ?out = "normalizar_segmentos segs"
  have a: "length ?out = length ?l" by (simp add: length_normalizar)
  have b: "map duration (limpar segs) =
       map (\<lambda>seg. max 0 (case get_duration seg of None \<Rightarrow> 0 | Some d \<Rightarrow> d))
         (filter (\<lambda>seg. strip (case get_text seg of None \<Rightarrow> [] | Some t \<Rightarrow> t) \<noteq> []) segs)"
    by (subst limpar_map_filter) (simp add: comp_def)
  have c: "duration (?out ! i) =
            (if i + 1 < length ?out
             then max (15 / 100) (start (?out ! (i + 1)) - start (?out ! i))
             else max (6 / 10) (real (length (split (texto (?out ! i)))) / (28 / 10)))"
    if "i < length ?out" "duration (?l ! i) \<le> 0" for i
  proof -
    have i: "i < length (limpar segs)" using that(1) by (simp add: length_normalizar)
    have "duration (?out ! i) = duracao_inferida ?l i"
      using that(2) i by (simp add: nth_normalizar reparado_def)
    also have "\<dots> = (if i + 1 < length ?out
             then max (15 / 100) (start (?out ! (i + 1)) - start (?out ! i))
             else max (6 / 10) (real (length (split (texto (?out ! i)))) / (28 / 10)))"
      using i by (simp add: duracao_inferida_def length_normalizar nth_normalizar reparado_fields)
    finally show ?thesis .
  qed
  have d: "normalizar_segmentos
       [\<lparr>get_text = Some (map of_char ''a''), get_start = Some 0, get_duration = Some 2\<rparr>,
        \<lparr>get_text = Some (map of_char ''b''), get_start = Some 3, get_duration = Some 0\<rparr>]
     = [\<lparr>texto = map of_char ''a'', start = 0, duration = 2\<rparr>,
        \<lparr>texto = map of_char ''b'', start = 3, duration = 6 / 10\<rparr>]"
    by (simp add: normalizar_nth reparado_def duracao_inferida_def strip_def is_space_def split_def upt_rec)
  show ?thesis using a b c d by blast
qed

text \<open>
  Claim C6 at two segments without duration, followed by one whose text is a no-break
  space and which is dropped: the first gets the distance to the second, the second is
  the last and gets the estimate from its three words, of which the first two are
  separated by a no-break space.
\<close>

theorem normalizar_infers_duration_witness:
  "1 < length (normalizar_segmentos
       [\<lparr>get_text = Some (map of_char ''b''), get_start = Some 3, get_duration = Some 0\<rparr>,
        \<lparr>get_text = Some (map of_char ''um'' @ 0xA0 # map of_char ''dois tres''),
          get_start = Some 5, get_duration = None\<rparr>,
        \<lparr>get_text = Some [0xA0], get_start = Some 9, get_duration = Some 1\<rparr>])
   \<and> duration (sort_key start (limpar
       [\<lparr>get_text = Some (map of_char ''b''), get_start = Some 3, get_duration = Some 0\<rparr>,
        \<lparr>get_text = Some (map of_char ''um'' @ 0xA0 # map of_char ''dois tres''),
          get_start = Some 5, get_duration = None\<rparr>,
        \<lparr>get_text = Some [0xA0], get_start = Some 9, get_duration = Some 1\<rparr>]) ! 0) \<le> 0
   \<and> duration (sort_key start (limpar
       [\<lparr>get_text = Some (map of_char ''b''), get_start = Some 3, get_duration = Some 0\<rparr>,
        \<lparr>get_text = Some (map of_char ''um'' @ 0xA0 # map of_char ''dois tres''),
          get_start = Some 5, get_duration = None\<rparr>,
        \<lparr>get_text = Some [0xA0], get_start = Some 9, get_duration = Some 1\<rparr>]) ! 1) \<le> 0
   \<and> map duration (normalizar_segmentos
       [\<lparr>get_text = Some (map of_char ''b''), get_start = Some 3, get_duration = Some 0\<rparr>,
        \<lparr>get_text = Some (map of_char ''um'' @ 0xA0 # map of_char ''dois tres''),
          get_start = Some 5, get_duration = None\<rparr>,
        \<lparr>get_text = Some [0xA0], get_start = Some 9, get_duration = Some 1\<rparr>])
       = [2, 15 / 14]"
  using normalizar_infers_duration [of
       "[\<lparr>get_text = Some (map of_char ''b''), get_start = Some 3, get_duration = Some 0\<rparr>,
        \<lparr>get_text = Some (map of_char ''um'' @ 0xA0 # map of_char ''dois tres''),
          get_start = Some 5, get_duration = None\<rparr>,
        \<lparr>get_text = Some [0xA0], get_start = Some 9, get_duration = Some 1\<rparr>]"]
  by (simp add: normalizar_nth reparado_def duracao_inferida_def strip_def is_space_def split_def upt_rec)

text \<open>
  Claim C10. \<^verbatim>\<open>_normalizar_segmentos\<close> is idempotent: applied to its own output, read as
  dictionaries again, it returns that output. The output is sorted by start and each of
  its entries has a text that is not empty, a start of at least 0 and a positive duration.
\<close>

theorem normalizar_idempotent:
  "normalizar_segmentos (map como_dict (normalizar_segmentos segs)) = normalizar_segmentos segs
   \<and> sorted (map start (normalizar_segmentos segs))
   \<and> (\<forall>s \<in> set (normalizar_segmentos segs). texto s \<noteq> [] \<and> 0 \<le> start s \<and> 0 < duration s)"
proof -
  let ?out = "normalizar_segmentos segs"
  have p: "\<And>s. s \<in> set ?out \<Longrightarrow>
      texto s \<noteq> [] \<and> strip (texto s) = texto s \<and> 0 \<le> start s \<and> 0 \<le> duration s"
    using normalizar_set_props by fastforce
  have 1: "limpar (map como_dict ?out) = ?out" using p by (rule limpar_como_dict)
  have 2: "sort_key start ?out = ?out" using sorted_normalizar by (rule sort_key_id_if_sorted)
  have 3: "map (reparado ?out) [0..<length ?out] = ?out"
    by (rule normalizar_idem_aux) (use normalizar_set_props in blast)
  have "normalizar_segmentos (map como_dict ?out) = ?out"
    using 3 by (subst normalizar_nth) (simp add: 1 2)
  moreover have "\<forall>s \<in> set ?out. texto s \<noteq> [] \<and> 0 \<le> start s \<and> 0 < duration s"
    using normalizar_set_props by blast
  ultimately show ?thesis using sorted_normalizar by blast
qed

text \<open>
  Claim C10 at a list with a missing text, a missing start and a negative duration.
\<close>

theorem normalizar_idempotent_witness:
  "normalizar_segmentos
     [\<lparr>get_text = Some (map of_char '' x y''), get_start = Some 2, get_duration = None\<rparr>,
      \<lparr>get_text = None, get_start = Some 1, get_duration = Some 4\<rparr>,
      \<lparr>get_text = Some (map of_char ''z''), get_start = None, get_duration = Some (-1)\<rparr>]
     = [\<lparr>texto = map of_char ''z'', start = 0, duration = 2\<rparr>, \<lparr>texto = map of_char ''x y'', start = 2, duration = 5 / 7\<rparr>]
   \<and> normalizar_segmentos (map como_dict (normalizar_segmentos
     [\<lparr>get_text = Some (map of_char '' x y''), get_start = Some 2, get_duration = None\<rparr>,
      \<lparr>get_text = None, get_start = Some 1, get_duration = Some 4\<rparr>,
      \<lparr>get_text = Some (map of_char ''z''), get_start = None, get_duration = Some (-1)\<rparr>]))
     = [\<lparr>texto = map of_char ''z'', start = 0, duration = 2\<rparr>, \<lparr>texto = map of_char ''x y'', start = 2, duration = 5 / 7\<rparr>]"
proof -
  have e: "normalizar_segmentos
     [\<lparr>get_text = Some (map of_char '' x y''), get_start = Some 2, get_duration = None\<rparr>,
      \<lparr>get_text = None, get_start = Some 1, get_duration = Some 4\<rparr>,
      \<lparr>get_text = Some (map of_char ''z''), get_start = None, get_duration = Some (-1)\<rparr>]
     = [\<lparr>texto = map of_char ''z'', start = 0, duration = 2\<rparr>, \<lparr>texto = map of_char ''x y'', start = 2, duration = 5 / 7\<rparr>]"
    by (simp add: normalizar_nth reparado_def duracao_inferida_def strip_def is_space_def split_def upt_rec)
  show ?thesis
    using normalizar_idempotent [of
     "[\<lparr>get_text = Some (map of_char '' x y''), get_start = Some 2, get_duration = None\<rparr>,
      \<lparr>get_text = None, get_start = Some 1, get_duration = Some 4\<rparr>,
      \<lparr>get_text = Some (map of_char ''z''), get_start = None, get_duration = Some (-1)\<rparr>]"]
    unfolding e by simp
qed

subsection \<open>The synchronisation loop and the assembler\<close>

lemma ajustar_is_Inr: "\<exists>filtro. ajustar_segmento_para_janela T p = Inr filtro"
  using ajustar_plan [of T p] by blast

lemma laco_sync_step:
  "laco_sync amb i (seg # segmentos) =
     (if excecao_externa amb i then laco_sync amb (i + 1) segmentos
      else \<lparr>arquivo = SegSync i, info_start = start seg, info_duration = duration seg,
            index = i\<rparr> # laco_sync amb (i + 1) segmentos)"
proof -
  obtain filtro where "ajustar_segmento_para_janela (duration seg) (sonda amb i) = Inr filtro"
    using ajustar_is_Inr by blast
  then show ?thesis by simp
qed

lemma laco_sync_filter:
  "laco_sync amb k segmentos =
     map (\<lambda>(i, seg). \<lparr>arquivo = SegSync i, info_start = start seg, info_duration = duration seg,
                        index = i\<rparr>)
       (filter (\<lambda>(i, seg). \<not> excecao_externa amb i) (zip [k..<k + length segmentos] segmentos))"
proof (induction segmentos arbitrary: k)
  case Nil
  show ?case by simp
next
  case (Cons seg segmentos)
  have "k < k + length (seg # segmentos)" by simp
  then have "[k..<k + length (seg # segmentos)] = k # [Suc k..<k + length (seg # segmentos)]"
    by (rule upt_conv_Cons)
  moreover have "k + length (seg # segmentos) = Suc k + length segmentos" by simp
  ultimately have "[k..<k + length (seg # segmentos)] = k # [Suc k..<Suc k + length segmentos]"
    by simp
  then show ?case using Cons [of "Suc k"] by (simp add: laco_sync_step del: laco_sync.simps)
qed

lemma map_fst_filter: "map fst (filter (\<lambda>p. P (fst p)) z) = filter P (map fst z)"
  by (induction z) auto

lemma map_snd_comp: "map (\<lambda>p. f (snd p)) z = map f (map snd z)"
  by (induction z) auto

lemma map_index_laco_sync:
  "map index (laco_sync amb 0 segmentos)
     = filter (\<lambda>i. \<not> excecao_externa amb i) [0..<length segmentos]"
proof -
  have "map index (laco_sync amb 0 segmentos)
      = map fst (filter (\<lambda>(i, seg). \<not> excecao_externa amb i) (zip [0..<length segmentos] segmentos))"
    by (simp add: laco_sync_filter comp_def case_prod_unfold)
  also have "\<dots> = map fst (filter (\<lambda>p. \<not> excecao_externa amb (fst p)) (zip [0..<length segmentos] segmentos))"
    by (simp add: case_prod_unfold)
  also have "\<dots> = filter (\<lambda>i. \<not> excecao_externa amb i) (map fst (zip [0..<length segmentos] segmentos))"
    by (rule map_fst_filter)
  finally show ?thesis by simp
qed

lemma map_arquivo_laco_sync:
  "map arquivo (laco_sync amb 0 segmentos)
     = map SegSync (filter (\<lambda>i. \<not> excecao_externa amb i) [0..<length segmentos])"
proof -
  have "\<forall>c \<in> set (laco_sync amb 0 segmentos). arquivo c = SegSync (index c)"
    by (auto simp: laco_sync_filter)
  then have "map arquivo (laco_sync amb 0 segmentos)
      = map (\<lambda>c. SegSync (index c)) (laco_sync amb 0 segmentos)"
    by (intro map_cong) simp_all
  also have "\<dots> = map SegSync (map index (laco_sync amb 0 segmentos))"
    by (simp add: comp_def)
  finally show ?thesis by (simp only: map_index_laco_sync)
qed

lemma laco_sync_empty_iff:
  "laco_sync amb 0 segmentos = [] \<longleftrightarrow> (\<forall>i < length segmentos. excecao_externa amb i)"
proof -
  have "laco_sync amb 0 segmentos = [] \<longleftrightarrow> map index (laco_sync amb 0 segmentos) = []" by simp
  also have "\<dots> \<longleftrightarrow> (\<forall>i < length segmentos. excecao_externa amb i)"
    unfolding map_index_laco_sync by (auto simp: filter_empty_conv)
  finally show ?thesis .
qed

lemma laco_sync_all:
  "\<forall>i < length segmentos. \<not> excecao_externa amb (k + i) \<Longrightarrow>
     laco_sync amb k segmentos
       = map (\<lambda>(i, seg). \<lparr>arquivo = SegSync i, info_start = start seg, info_duration = duration seg,
                        index = i\<rparr>) (zip [k..<k + length segmentos] segmentos)"
proof -
  assume a: "\<forall>i < length segmentos. \<not> excecao_externa amb (k + i)"
  have "filter (\<lambda>(i, seg). \<not> excecao_externa amb i) (zip [k..<k + length segmentos] segmentos)
      = zip [k..<k + length segmentos] segmentos"
  proof (rule filter_True, clarify)
    fix i seg assume "(i, seg) \<in> set (zip [k..<k + length segmentos] segmentos)" "excecao_externa amb i"
    then have "i \<in> set [k..<k + length segmentos]" by (meson set_zip_leftD)
    then have "k \<le> i" "i - k < length segmentos" by auto
    then have "\<not> excecao_externa amb (k + (i - k))" using a by blast
    then show False using \<open>k \<le> i\<close> \<open>excecao_externa amb i\<close> by simp
  qed
  then show ?thesis by (simp add: laco_sync_filter)
qed

lemma laco_sync_ends_subset:
  "set (map (\<lambda>c. info_start c + info_duration c) (laco_sync amb k segmentos))
     \<subseteq> set (map (\<lambda>seg. start seg + duration seg) segmentos)"
  unfolding laco_sync_filter by (auto dest: set_zip_rightD)

lemma laco_sync_ends_all:
  assumes "\<forall>i < length segmentos. \<not> excecao_externa amb i"
  shows "map (\<lambda>c. info_start c + info_duration c) (laco_sync amb 0 segmentos)
           = map (\<lambda>seg. start seg + duration seg) segmentos"
proof -
  have "laco_sync amb 0 segmentos
       = map (\<lambda>(i, seg). \<lparr>arquivo = SegSync i, info_start = start seg, info_duration = duration seg,
                        index = i\<rparr>) (zip [0..<0 + length segmentos] segmentos)"
    by (rule laco_sync_all) (use assms in simp)
  then have "map (\<lambda>c. info_start c + info_duration c) (laco_sync amb 0 segmentos)
      = map (\<lambda>p. start (snd p) + duration (snd p)) (zip [0..<length segmentos] segmentos)"
    by (simp add: comp_def case_prod_unfold)
  also have "\<dots> = map (\<lambda>seg. start seg + duration seg) (map snd (zip [0..<length segmentos] segmentos))"
    by (rule map_snd_comp)
  finally show ?thesis by simp
qed

lemma max_default_Max: "xs \<noteq> [] \<Longrightarrow> max_default d xs = Max (set xs)"
proof (cases xs)
  case Nil
  assume "xs \<noteq> []"
  with Nil show ?thesis by simp
next
  case (Cons a list)
  then show ?thesis using Max.set_eq_fold [of a list] by (simp add: max_default_def)
qed

lemma max_default_mono:
  assumes "set xs \<subseteq> set ys" "xs \<noteq> []"
  shows "max_default d xs \<le> max_default d ys"
proof -
  have ys: "ys \<noteq> []" using assms by auto
  have "Max (set xs) \<le> Max (set ys)" by (rule Max_mono) (use assms in simp_all)
  then show ?thesis using assms(2) ys by (simp add: max_default_Max)
qed

lemma py_int_floor: "0 \<le> x \<Longrightarrow> py_int x = \<lfloor>x\<rfloor>"
  by (simp add: py_int_def)

lemma gerar_cases:
  "gerar_audio_completo amb segs =
     (if laco_sync amb 0 (normalizar_segmentos segs) = [] then Inl NenhumSegmento
      else Inr \<lparr>duracao_total =
                  max_default 0 (map (\<lambda>seg. start seg + duration seg) (normalizar_segmentos segs)) + 1,
                delays = map (\<lambda>seg_info. (arquivo seg_info, delay_ms seg_info))
                           (laco_sync amb 0 (normalizar_segmentos segs)),
                amix_inputs = length (laco_sync amb 0 (normalizar_segmentos segs)) + 1,
                concat_list = (if mix_returncode amb \<noteq> 0
                               then Some (map arquivo (laco_sync amb 0 (normalizar_segmentos segs)))
                               else None),
                retorno = (if mix_returncode amb \<noteq> 0 then DublagemConcat else DublagemCompleta)\<rparr>)"
  by (simp add: gerar_audio_completo_def Let_def concatenar_simples_def)


lemma laco_sync_start_nonneg:
  assumes "c \<in> set (laco_sync amb k segmentos)" "\<forall>s \<in> set segmentos. 0 \<le> start s"
  shows "0 \<le> info_start c"
  using assms unfolding laco_sync_filter by (auto dest: set_zip_rightD)

subsection \<open>The product rounded to a double\<close>

lemma dois_elevado_pos: "0 < dois_elevado k"
  by (simp add: dois_elevado_def)

lemma dois_elevado_powr: "dois_elevado k = 2 powr of_int k"
proof (cases "0 \<le> k")
  case True
  then have "2 powr of_int k = (2::real) powr real (nat k)" by simp
  also have "\<dots> = 2 ^ nat k" by (rule powr_realpow) simp
  finally show ?thesis using True by (simp add: dois_elevado_def)
next
  case False
  then have "(2::real) powr of_int k = 2 powr (- real (nat (- k)))" by simp
  also have "\<dots> = inverse (2 powr real (nat (- k)))" by (rule powr_minus)
  also have "2 powr real (nat (- k)) = (2::real) ^ nat (- k)" by (rule powr_realpow) simp
  finally show ?thesis using False by (simp add: dois_elevado_def inverse_eq_divide)
qed

lemma expoente_eq:
  assumes "- 1022 \<le> k" "dois_elevado k \<le> \<bar>x\<bar>" "\<bar>x\<bar> < dois_elevado (k + 1)"
  shows "expoente x = k"
proof -
  have pos: "0 < \<bar>x\<bar>" using assms(2) dois_elevado_pos [of k] by linarith
  have "\<lfloor>log 2 \<bar>x\<bar>\<rfloor> = k"
    using assms(2,3) floor_log_eq_powr_iff [of "\<bar>x\<bar>" 2 k] pos
    by (simp add: dois_elevado_powr)
  then show ?thesis using assms(1) by (simp add: expoente_def)
qed

lemma arredondar_double_nonneg: "0 \<le> x \<Longrightarrow> 0 \<le> arredondar_double x"
proof -
  assume x: "0 \<le> x"
  let ?u = "dois_elevado (expoente x - 52)"
  have u: "0 < ?u" by (rule dois_elevado_pos)
  have "of_int 0 \<le> x / ?u" using x u by simp
  then have "0 \<le> round_half_even (x / ?u)" by (rule round_half_even_ge)
  then show ?thesis using u by (simp add: arredondar_double_def Let_def)
qed

lemma expoente_le_52:
  assumes "x \<noteq> 0" "\<bar>x\<bar> < 2 ^ 53"
  shows "expoente x \<le> 52"
proof -
  have pos: "0 < \<bar>x\<bar>" using assms(1) by simp
  have "log 2 \<bar>x\<bar> < 53" using assms(2) pos by (subst log_less_iff) simp_all
  then have "\<lfloor>log 2 \<bar>x\<bar>\<rfloor> < 53" by (simp add: floor_less_iff)
  then show ?thesis by (simp add: expoente_def)
qed

lemma dois_elevado_nonpos: "j \<le> 0 \<Longrightarrow> x / dois_elevado j = x * 2 ^ nat (- j)"
  by (cases "j = 0") (simp_all add: dois_elevado_def)

lemma arredondar_double_ge_int:
  assumes "of_int k \<le> x" "\<bar>x\<bar> < 2 ^ 53"
  shows "of_int k \<le> arredondar_double x"
proof (cases "x = 0")
  case True
  then show ?thesis using assms(1) by (simp add: arredondar_double_def)
next
  case False
  define j where "j = expoente x - 52"
  define n where "n = nat (- j)"
  have j: "j \<le> 0" unfolding j_def using expoente_le_52 [OF False assms(2)] by simp
  have d: "y / dois_elevado j = y * 2 ^ n" for y :: real
    unfolding n_def using j by (rule dois_elevado_nonpos)
  have "of_int (k * 2 ^ n) \<le> x * 2 ^ n" using assms(1) by simp
  then have "k * 2 ^ n \<le> round_half_even (x * 2 ^ n)" by (rule round_half_even_ge)
  then have "(of_int (k * 2 ^ n) :: real) \<le> of_int (round_half_even (x * 2 ^ n))"
    by (simp only: of_int_le_iff)
  then have "of_int k * 2 ^ n \<le> (of_int (round_half_even (x * 2 ^ n)) :: real)" by simp
  then have "of_int k \<le> (of_int (round_half_even (x * 2 ^ n)) :: real) / 2 ^ n"
    by (simp add: pos_le_divide_eq)
  moreover have "arredondar_double x = of_int (round_half_even (x * 2 ^ n)) / 2 ^ n"
  proof -
    have "dois_elevado j = 1 / 2 ^ n" using d [of 1] dois_elevado_pos [of j]
      by (simp add: field_simps)
    then show ?thesis using False d [of x]
      by (simp add: arredondar_double_def Let_def j_def [symmetric])
  qed
  ultimately show ?thesis by simp
qed

lemma arredondar_double_le_int:
  assumes "x \<le> of_int k" "\<bar>x\<bar> < 2 ^ 53"
  shows "arredondar_double x \<le> of_int k"
proof (cases "x = 0")
  case True
  then show ?thesis using assms(1) by (simp add: arredondar_double_def)
next
  case False
  define j where "j = expoente x - 52"
  define n where "n = nat (- j)"
  have j: "j \<le> 0" unfolding j_def using expoente_le_52 [OF False assms(2)] by simp
  have d: "y / dois_elevado j = y * 2 ^ n" for y :: real
    unfolding n_def using j by (rule dois_elevado_nonpos)
  have "x * 2 ^ n \<le> of_int (k * 2 ^ n)" using assms(1) by simp
  then have "round_half_even (x * 2 ^ n) \<le> k * 2 ^ n" by (rule round_half_even_le)
  then have "(of_int (round_half_even (x * 2 ^ n)) :: real) \<le> of_int (k * 2 ^ n)"
    by (simp only: of_int_le_iff)
  then have "(of_int (round_half_even (x * 2 ^ n)) :: real) \<le> of_int k * 2 ^ n" by simp
  then have "(of_int (round_half_even (x * 2 ^ n)) :: real) / 2 ^ n \<le> of_int k"
    by (simp add: pos_divide_le_eq)
  moreover have "arredondar_double x = of_int (round_half_even (x * 2 ^ n)) / 2 ^ n"
  proof -
    have "dois_elevado j = 1 / 2 ^ n" using d [of 1] dois_elevado_pos [of j]
      by (simp add: field_simps)
    then show ?thesis using False d [of x]
      by (simp add: arredondar_double_def Let_def j_def [symmetric])
  qed
  ultimately show ?thesis by simp
qed

lemma arredondar_double_int:
  "\<bar>of_int k :: real\<bar> < 2 ^ 53 \<Longrightarrow> arredondar_double (of_int k) = of_int k"
  using arredondar_double_ge_int [of k "of_int k"] arredondar_double_le_int [of "of_int k" k]
  by simp

lemma mul_double_floor_ceiling:
  assumes "0 \<le> a" "a * 1000 < 2 ^ 53"
  shows "\<lfloor>a * 1000\<rfloor> \<le> \<lfloor>mul_double a 1000\<rfloor>" "\<lfloor>mul_double a 1000\<rfloor> \<le> \<lceil>a * 1000\<rceil>"
proof -
  have ab: "\<bar>a * 1000\<bar> < 2 ^ 53" using assms by simp
  have "of_int \<lfloor>a * 1000\<rfloor> \<le> mul_double a 1000"
    unfolding mul_double_def by (rule arredondar_double_ge_int [OF _ ab]) simp
  then show "\<lfloor>a * 1000\<rfloor> \<le> \<lfloor>mul_double a 1000\<rfloor>" by (simp add: le_floor_iff)
  have "mul_double a 1000 \<le> of_int \<lceil>a * 1000\<rceil>"
    unfolding mul_double_def by (rule arredondar_double_le_int [OF _ ab]) simp
  then have "of_int \<lfloor>mul_double a 1000\<rfloor> \<le> (of_int \<lceil>a * 1000\<rceil> :: real)"
    using of_int_floor_le [of "mul_double a 1000"] by linarith
  then show "\<lfloor>mul_double a 1000\<rfloor> \<le> \<lceil>a * 1000\<rceil>" by (simp only: of_int_le_iff)
qed

lemma mul_double_nonneg: "0 \<le> a \<Longrightarrow> 0 \<le> mul_double a 1000"
  unfolding mul_double_def by (rule arredondar_double_nonneg) simp

subsection \<open>The run as a whole\<close>

text \<open>
  A segment for which synthesis or the launch of the transcoder raises is skipped and the
  loop goes on; the run fails exactly when every segment raised.
\<close>

lemma laco_sync_skips_exceptions:
  "map index (laco_sync amb 0 (normalizar_segmentos segs))
      = filter (\<lambda>i. \<not> excecao_externa amb i) [0..<length (normalizar_segmentos segs)]
   \<and> ((\<exists>e. gerar_audio_completo amb segs = Inl e)
         \<longleftrightarrow> laco_sync amb 0 (normalizar_segmentos segs) = [])
   \<and> (gerar_audio_completo amb segs = Inl NenhumSegmento
         \<longleftrightarrow> (\<forall>i < length (normalizar_segmentos segs). excecao_externa amb i))"
proof -
  let ?n = "normalizar_segmentos segs"
  let ?l = "laco_sync amb 0 ?n"
  have a: "map index ?l = filter (\<lambda>i. \<not> excecao_externa amb i) [0..<length ?n]"
    by (rule map_index_laco_sync)
  have b: "(\<exists>e. gerar_audio_completo amb segs = Inl e) \<longleftrightarrow> ?l = []"
    by (simp add: gerar_cases)
  have c: "gerar_audio_completo amb segs = Inl NenhumSegmento
         \<longleftrightarrow> (\<forall>i < length ?n. excecao_externa amb i)"
    using laco_sync_empty_iff [of amb ?n] by (simp add: gerar_cases)
  show ?thesis using a b c by blast
qed

text \<open>
  Claim C7 fails where the sync of a segment ends with a status that is not zero without
  raising: the status is not read, the clip is appended as if synced, and the run goes on
  to the assembly instead of failing. Here the only segment's sync ends with status 1.
  The probe, the joint mix and the final render do read their exit status.
\<close>

theorem sync_failure_not_skipped:
  "sync_returncode \<lparr>excecao_externa = (\<lambda>i. False), sonda = (\<lambda>i. None),
       sync_returncode = (\<lambda>i. 1), mix_returncode = 0\<rparr> 0 \<noteq> 0
   \<and> map index (laco_sync \<lparr>excecao_externa = (\<lambda>i. False), sonda = (\<lambda>i. None),
       sync_returncode = (\<lambda>i. 1), mix_returncode = 0\<rparr> 0
       (normalizar_segmentos
     [\<lparr>get_text = Some (map of_char ''a''), get_start = Some (0), get_duration = Some (1)\<rparr>])) = [0]
   \<and> gerar_audio_completo \<lparr>excecao_externa = (\<lambda>i. False), sonda = (\<lambda>i. None),
       sync_returncode = (\<lambda>i. 1), mix_returncode = 0\<rparr>
     [\<lparr>get_text = Some (map of_char ''a''), get_start = Some (0), get_duration = Some (1)\<rparr>]
     = Inr \<lparr>duracao_total = 2, delays = [(SegSync 0, 0)], amix_inputs = 2,
          concat_list = None, retorno = DublagemCompleta\<rparr>"
proof -
  have m0: "mul_double 0 1000 = 0" by (simp add: mul_double_def arredondar_double_def)
  show ?thesis
    by (simp add: gerar_cases laco_sync_step normalizar_nth reparado_def duracao_inferida_def strip_def
        is_space_def split_def upt_rec max_default_def delay_ms_def py_int_def
        fim_dos_sincronizados_def round_half_even_def m0 del: laco_sync.simps(2))
qed

text \<open>
  Claim C8. When the joint mix ends with a status that is not zero and at least one clip
  was synced, the run does not fail: it returns the concatenated track, and the
  concatenation list is the files of the synced clips and nothing else, in the order of
  the segments; the start offsets do not enter it. When the mix ends with status zero no
  concatenation list is written.
\<close>

theorem fallback_concat:
  "(laco_sync amb 0 (normalizar_segmentos segs) \<noteq> [] \<and> mix_returncode amb \<noteq> 0 \<longrightarrow>
      (\<exists>ex. gerar_audio_completo amb segs = Inr ex
         \<and> retorno ex = DublagemConcat
         \<and> concat_list ex = Some (map arquivo (laco_sync amb 0 (normalizar_segmentos segs)))
         \<and> concat_list ex
             = Some (map SegSync (filter (\<lambda>i. \<not> excecao_externa amb i)
                                    [0..<length (normalizar_segmentos segs)]))))
   \<and> (laco_sync amb 0 (normalizar_segmentos segs) \<noteq> [] \<and> mix_returncode amb = 0 \<longrightarrow>
      (\<exists>ex. gerar_audio_completo amb segs = Inr ex
         \<and> retorno ex = DublagemCompleta \<and> concat_list ex = None))"
  by (simp add: gerar_cases map_arquivo_laco_sync)

text \<open>
  Claim C8 at three segments of which the second raises, with a failing mix.
\<close>

theorem fallback_concat_witness:
  "mix_returncode \<lparr>excecao_externa = (\<lambda>i. i = 1), sonda = (\<lambda>i. None),
       sync_returncode = (\<lambda>i. 0), mix_returncode = 1\<rparr> \<noteq> 0
   \<and> gerar_audio_completo \<lparr>excecao_externa = (\<lambda>i. i = 1), sonda = (\<lambda>i. None),
       sync_returncode = (\<lambda>i. 0), mix_returncode = 1\<rparr>
     [\<lparr>get_text = Some (map of_char ''a''), get_start = Some (0), get_duration = Some (1)\<rparr>,
      \<lparr>get_text = Some (map of_char ''b''), get_start = Some (5), get_duration = Some (2)\<rparr>,
      \<lparr>get_text = Some (map of_char ''c''), get_start = Some (9), get_duration = Some (1)\<rparr>]
     = Inr \<lparr>duracao_total = 11, delays = [(SegSync 0, 0), (SegSync 2, 9000)], amix_inputs = 3,
          concat_list = Some [SegSync 0, SegSync 2], retorno = DublagemConcat\<rparr>"
proof -
  have m0: "mul_double 0 1000 = 0" by (simp add: mul_double_def arredondar_double_def)
  have m9: "mul_double 9 1000 = 9000"
    using arredondar_double_int [of 9000] by (simp add: mul_double_def)
  have e: "gerar_audio_completo \<lparr>excecao_externa = (\<lambda>i. i = 1), sonda = (\<lambda>i. None),
       sync_returncode = (\<lambda>i. 0), mix_returncode = 1\<rparr>
     [\<lparr>get_text = Some (map of_char ''a''), get_start = Some (0), get_duration = Some (1)\<rparr>,
      \<lparr>get_text = Some (map of_char ''b''), get_start = Some (5), get_duration = Some (2)\<rparr>,
      \<lparr>get_text = Some (map of_char ''c''), get_start = Some (9), get_duration = Some (1)\<rparr>]
     = Inr \<lparr>duracao_total = 11, delays = [(SegSync 0, 0), (SegSync 2, 9000)], amix_inputs = 3,
          concat_list = Some [SegSync 0, SegSync 2], retorno = DublagemConcat\<rparr>"
    by (simp add: gerar_cases laco_sync_step normalizar_nth reparado_def duracao_inferida_def strip_def
        is_space_def split_def upt_rec max_default_def delay_ms_def py_int_def
        fim_dos_sincronizados_def round_half_even_def m0 m9 del: laco_sync.simps(2))
  show ?thesis
    using fallback_concat [of "\<lparr>excecao_externa = (\<lambda>i. i = 1), sonda = (\<lambda>i. None),
       sync_returncode = (\<lambda>i. 0), mix_returncode = 1\<rparr>"
     "[\<lparr>get_text = Some (map of_char ''a''), get_start = Some (0), get_duration = Some (1)\<rparr>,
      \<lparr>get_text = Some (map of_char ''b''), get_start = Some (5), get_duration = Some (2)\<rparr>,
      \<lparr>get_text = Some (map of_char ''c''), get_start = Some (9), get_duration = Some (1)\<rparr>]"] e
    by simp
qed

text \<open>
  Claim C3, as amended. The silent base track is as long as the latest end, start plus
  duration, among all normalised segments, plus one second, whether or not their clips
  were synced. That is never less than \<open>T + 1\<close>, for \<open>T\<close> the latest end among the synced
  clips, and it is \<open>T + 1\<close> when no segment was skipped.
\<close>

theorem duracao_total_all_segments:
  assumes "gerar_audio_completo amb segs = Inr ex"
  shows "duracao_total ex
           = max_default 0 (map (\<lambda>seg. start seg + duration seg) (normalizar_segmentos segs)) + 1
       \<and> fim_dos_sincronizados (laco_sync amb 0 (normalizar_segmentos segs)) + 1 \<le> duracao_total ex
       \<and> ((\<forall>i < length (normalizar_segmentos segs). \<not> excecao_externa amb i) \<longrightarrow>
            duracao_total ex
              = fim_dos_sincronizados (laco_sync amb 0 (normalizar_segmentos segs)) + 1)"
proof -
  let ?n = "normalizar_segmentos segs"
  let ?l = "laco_sync amb 0 ?n"
  have ne: "?l \<noteq> []" using assms by (auto simp: gerar_cases split: if_splits)
  have a: "duracao_total ex = max_default 0 (map (\<lambda>seg. start seg + duration seg) ?n) + 1"
    using assms ne by (auto simp: gerar_cases)
  have "max_default 0 (map (\<lambda>c. info_start c + info_duration c) ?l)
          \<le> max_default 0 (map (\<lambda>seg. start seg + duration seg) ?n)"
    by (rule max_default_mono) (use ne laco_sync_ends_subset in simp_all)
  then have b: "fim_dos_sincronizados ?l + 1 \<le> duracao_total ex"
    using a by (simp add: fim_dos_sincronizados_def)
  have c: "duracao_total ex = fim_dos_sincronizados ?l + 1"
    if "\<forall>i < length ?n. \<not> excecao_externa amb i"
    using a laco_sync_ends_all [OF that] by (simp add: fim_dos_sincronizados_def)
  show ?thesis using a b c by blast
qed

text \<open>
  Claim C3 as stated fails: of two segments, \<open>{"a", 0, 1}\<close> and \<open>{"b", 5, 2}\<close>, the second
  raises and is skipped; the only synced clip ends at 1, and the base track is 8 seconds
  long, not 2.
\<close>

theorem duracao_total_counterexample:
  "gerar_audio_completo \<lparr>excecao_externa = (\<lambda>i. i = 1), sonda = (\<lambda>i. None),
       sync_returncode = (\<lambda>i. 0), mix_returncode = 0\<rparr>
     [\<lparr>get_text = Some (map of_char ''a''), get_start = Some (0), get_duration = Some (1)\<rparr>,
      \<lparr>get_text = Some (map of_char ''b''), get_start = Some (5), get_duration = Some (2)\<rparr>]
     = Inr \<lparr>duracao_total = 8, delays = [(SegSync 0, 0)], amix_inputs = 2,
          concat_list = None, retorno = DublagemCompleta\<rparr>
   \<and> fim_dos_sincronizados (laco_sync \<lparr>excecao_externa = (\<lambda>i. i = 1), sonda = (\<lambda>i. None),
       sync_returncode = (\<lambda>i. 0), mix_returncode = 0\<rparr> 0
       (normalizar_segmentos
     [\<lparr>get_text = Some (map of_char ''a''), get_start = Some (0), get_duration = Some (1)\<rparr>,
      \<lparr>get_text = Some (map of_char ''b''), get_start = Some (5), get_duration = Some (2)\<rparr>])) = 1
   \<and> duracao_total (projr (gerar_audio_completo \<lparr>excecao_externa = (\<lambda>i. i = 1), sonda = (\<lambda>i. None),
       sync_returncode = (\<lambda>i. 0), mix_returncode = 0\<rparr>
     [\<lparr>get_text = Some (map of_char ''a''), get_start = Some (0), get_duration = Some (1)\<rparr>,
      \<lparr>get_text = Some (map of_char ''b''), get_start = Some (5), get_duration = Some (2)\<rparr>]))
     \<noteq> fim_dos_sincronizados (laco_sync \<lparr>excecao_externa = (\<lambda>i. i = 1), sonda = (\<lambda>i. None),
       sync_returncode = (\<lambda>i. 0), mix_returncode = 0\<rparr> 0
       (normalizar_segmentos
     [\<lparr>get_text = Some (map of_char ''a''), get_start = Some (0), get_duration = Some (1)\<rparr>,
      \<lparr>get_text = Some (map of_char ''b''), get_start = Some (5), get_duration = Some (2)\<rparr>])) + 1"
proof -
  have m0: "mul_double 0 1000 = 0" by (simp add: mul_double_def arredondar_double_def)
  show ?thesis
    by (simp add: gerar_cases laco_sync_step normalizar_nth reparado_def duracao_inferida_def strip_def
        is_space_def split_def upt_rec max_default_def delay_ms_def py_int_def
        fim_dos_sincronizados_def round_half_even_def m0 del: laco_sync.simps(2))
qed

text \<open>
  The amended claim C3 on the same run.
\<close>

theorem duracao_total_all_segments_witness:
  "gerar_audio_completo \<lparr>excecao_externa = (\<lambda>i. i = 1), sonda = (\<lambda>i. None),
       sync_returncode = (\<lambda>i. 0), mix_returncode = 0\<rparr>
     [\<lparr>get_text = Some (map of_char ''a''), get_start = Some (0), get_duration = Some (1)\<rparr>,
      \<lparr>get_text = Some (map of_char ''b''), get_start = Some (5), get_duration = Some (2)\<rparr>]
     = Inr \<lparr>duracao_total = 8, delays = [(SegSync 0, 0)], amix_inputs = 2,
          concat_list = None, retorno = DublagemCompleta\<rparr>
   \<and> duracao_total \<lparr>duracao_total = 8, delays = [(SegSync 0, 0)], amix_inputs = 2,
          concat_list = None, retorno = DublagemCompleta\<rparr> = 8
   \<and> fim_dos_sincronizados (laco_sync \<lparr>excecao_externa = (\<lambda>i. i = 1), sonda = (\<lambda>i. None),
       sync_returncode = (\<lambda>i. 0), mix_returncode = 0\<rparr> 0
       (normalizar_segmentos
     [\<lparr>get_text = Some (map of_char ''a''), get_start = Some (0), get_duration = Some (1)\<rparr>,
      \<lparr>get_text = Some (map of_char ''b''), get_start = Some (5), get_duration = Some (2)\<rparr>])) + 1 \<le> 8"
proof -
  have m0: "mul_double 0 1000 = 0" by (simp add: mul_double_def arredondar_double_def)
  have e: "gerar_audio_completo \<lparr>excecao_externa = (\<lambda>i. i = 1), sonda = (\<lambda>i. None),
       sync_returncode = (\<lambda>i. 0), mix_returncode = 0\<rparr>
     [\<lparr>get_text = Some (map of_char ''a''), get_start = Some (0), get_duration = Some (1)\<rparr>,
      \<lparr>get_text = Some (map of_char ''b''), get_start = Some (5), get_duration = Some (2)\<rparr>]
     = Inr \<lparr>duracao_total = 8, delays = [(SegSync 0, 0)], amix_inputs = 2,
          concat_list = None, retorno = DublagemCompleta\<rparr>"
    by (simp add: gerar_cases laco_sync_step normalizar_nth reparado_def duracao_inferida_def strip_def
        is_space_def split_def upt_rec max_default_def delay_ms_def py_int_def
        fim_dos_sincronizados_def round_half_even_def m0 del: laco_sync.simps(2))
  show ?thesis using duracao_total_all_segments [OF e] e by simp
qed

text \<open>
  Claim C5, as amended. The delay of a clip in the mix is \<^verbatim>\<open>int(start * 1000)\<close>: the
  product as a double, cut off and not rounded. It is Python's \<^verbatim>\<open>round\<close> of that product
  when the fraction cut off is below one half, and one less when it is above one half.
  Against the exact product it is the floor or the ceiling, for starts below \<open>2\<^sup>5\<^sup>3\<close> ms.
\<close>

theorem delay_ms_truncates:
  assumes "gerar_audio_completo amb segs = Inr ex"
  shows "delays ex = map (\<lambda>c. (arquivo c, \<lfloor>mul_double (info_start c) 1000\<rfloor>))
                       (laco_sync amb 0 (normalizar_segmentos segs))
       \<and> (\<forall>c \<in> set (laco_sync amb 0 (normalizar_segmentos segs)).
             0 \<le> info_start c
           \<and> delay_ms c = \<lfloor>mul_double (info_start c) 1000\<rfloor>
           \<and> (mul_double (info_start c) 1000 - of_int \<lfloor>mul_double (info_start c) 1000\<rfloor> < 1 / 2
                \<longrightarrow> delay_ms c = round_half_even (mul_double (info_start c) 1000))
           \<and> (1 / 2 < mul_double (info_start c) 1000 - of_int \<lfloor>mul_double (info_start c) 1000\<rfloor>
                \<longrightarrow> delay_ms c = round_half_even (mul_double (info_start c) 1000) - 1)
           \<and> (info_start c * 1000 < 2 ^ 53
                \<longrightarrow> \<lfloor>info_start c * 1000\<rfloor> \<le> delay_ms c
                  \<and> delay_ms c \<le> \<lceil>info_start c * 1000\<rceil>))"
proof -
  let ?n = "normalizar_segmentos segs"
  let ?l = "laco_sync amb 0 ?n"
  have ne: "?l \<noteq> []" using assms by (auto simp: gerar_cases split: if_splits)
  have pos: "0 \<le> info_start c" if "c \<in> set ?l" for c
    using that by (rule laco_sync_start_nonneg) (use normalizar_set_props in blast)
  have fl: "delay_ms c = \<lfloor>mul_double (info_start c) 1000\<rfloor>" if "c \<in> set ?l" for c
    using mul_double_nonneg [OF pos [OF that]] by (simp add: delay_ms_def py_int_floor)
  have a: "delays ex = map (\<lambda>c. (arquivo c, \<lfloor>mul_double (info_start c) 1000\<rfloor>)) ?l"
  proof -
    have "delays ex = map (\<lambda>c. (arquivo c, delay_ms c)) ?l"
      using assms ne by (auto simp: gerar_cases)
    also have "\<dots> = map (\<lambda>c. (arquivo c, \<lfloor>mul_double (info_start c) 1000\<rfloor>)) ?l"
      by (rule map_cong) (simp_all add: fl)
    finally show ?thesis .
  qed
  have b: "0 \<le> info_start c
           \<and> delay_ms c = \<lfloor>mul_double (info_start c) 1000\<rfloor>
           \<and> (mul_double (info_start c) 1000 - of_int \<lfloor>mul_double (info_start c) 1000\<rfloor> < 1 / 2
                \<longrightarrow> delay_ms c = round_half_even (mul_double (info_start c) 1000))
           \<and> (1 / 2 < mul_double (info_start c) 1000 - of_int \<lfloor>mul_double (info_start c) 1000\<rfloor>
                \<longrightarrow> delay_ms c = round_half_even (mul_double (info_start c) 1000) - 1)
           \<and> (info_start c * 1000 < 2 ^ 53
                \<longrightarrow> \<lfloor>info_start c * 1000\<rfloor> \<le> delay_ms c
                  \<and> delay_ms c \<le> \<lceil>info_start c * 1000\<rceil>)"
    if "c \<in> set ?l" for c
  proof -
    have 1: "delay_ms c = \<lfloor>mul_double (info_start c) 1000\<rfloor>" by (rule fl [OF that])
    have 2: "delay_ms c = round_half_even (mul_double (info_start c) 1000)"
      if "mul_double (info_start c) 1000 - of_int \<lfloor>mul_double (info_start c) 1000\<rfloor> < 1 / 2"
      using that unfolding 1 by (simp add: round_half_even_def Let_def)
    have 3: "delay_ms c = round_half_even (mul_double (info_start c) 1000) - 1"
      if "1 / 2 < mul_double (info_start c) 1000 - of_int \<lfloor>mul_double (info_start c) 1000\<rfloor>"
      using that unfolding 1 by (simp add: round_half_even_def Let_def)
    have 4: "\<lfloor>info_start c * 1000\<rfloor> \<le> delay_ms c \<and> delay_ms c \<le> \<lceil>info_start c * 1000\<rceil>"
      if "info_start c * 1000 < 2 ^ 53"
      unfolding 1 using mul_double_floor_ceiling [OF pos [OF \<open>c \<in> set ?l\<close>] that] by simp
    show ?thesis using pos [OF that] 1 2 3 4 by blast
  qed
  show ?thesis using a b by blast
qed

text \<open>
  Claim C5 as stated fails: a clip that starts at the double 0.0008 is delayed by 0 ms,
  and \<^verbatim>\<open>round\<close> of the product 0.8 is 1.
\<close>

theorem delay_ms_counterexample:
  "gerar_audio_completo \<lparr>excecao_externa = (\<lambda>i. False), sonda = (\<lambda>i. None),
       sync_returncode = (\<lambda>i. 0), mix_returncode = 0\<rparr>
     [\<lparr>get_text = Some (map of_char ''a''), get_start = Some (7378697629483821 / 9223372036854775808), get_duration = Some (1)\<rparr>]
     = Inr \<lparr>duracao_total = 7378697629483821 / 9223372036854775808 + 1 + 1, delays = [(SegSync 0, 0)], amix_inputs = 2,
          concat_list = None, retorno = DublagemCompleta\<rparr>
   \<and> round_half_even (mul_double (7378697629483821 / 9223372036854775808) 1000) = 1
   \<and> snd (hd (delays (projr (gerar_audio_completo \<lparr>excecao_externa = (\<lambda>i. False), sonda = (\<lambda>i. None),
       sync_returncode = (\<lambda>i. 0), mix_returncode = 0\<rparr>
     [\<lparr>get_text = Some (map of_char ''a''), get_start = Some (7378697629483821 / 9223372036854775808), get_duration = Some (1)\<rparr>]))))
     \<noteq> round_half_even (mul_double (7378697629483821 / 9223372036854775808) 1000)"
proof -
  have e08: "expoente (7378697629483821 / 9223372036854775808 * 1000) = - 1"
    by (rule expoente_eq) (simp_all add: dois_elevado_def)
  have m08: "mul_double (7378697629483821 / 9223372036854775808) 1000 = 7205759403792794 / 9007199254740992"
    unfolding mul_double_def arredondar_double_def e08 Let_def
    by (simp add: dois_elevado_def round_half_even_def)
  show ?thesis
    by (simp add: gerar_cases laco_sync_step normalizar_nth reparado_def duracao_inferida_def strip_def
        is_space_def split_def upt_rec max_default_def delay_ms_def py_int_def
        fim_dos_sincronizados_def round_half_even_def m08 del: laco_sync.simps(2))
qed

text \<open>
  The amended claim C5 at two clips, starting at the doubles 0.0004 and 0.57. The exact
  product of the second is just below 570 and its floor is 569; the product as a double
  is 570, and so is the delay.
\<close>

theorem delay_ms_truncates_witness:
  "gerar_audio_completo \<lparr>excecao_externa = (\<lambda>i. False), sonda = (\<lambda>i. None),
       sync_returncode = (\<lambda>i. 0), mix_returncode = 0\<rparr>
     [\<lparr>get_text = Some (map of_char ''a''), get_start = Some (7378697629483821 / 18446744073709551616), get_duration = Some (1)\<rparr>,
      \<lparr>get_text = Some (map of_char ''b''), get_start = Some (5134103575202365 / 9007199254740992), get_duration = Some (1)\<rparr>]
     = Inr \<lparr>duracao_total = 5134103575202365 / 9007199254740992 + 1 + 1, delays = [(SegSync 0, 0), (SegSync 1, 570)], amix_inputs = 3,
          concat_list = None, retorno = DublagemCompleta\<rparr>
   \<and> \<lfloor>5134103575202365 / 9007199254740992 * 1000 :: real\<rfloor> = 569
   \<and> delays \<lparr>duracao_total = 5134103575202365 / 9007199254740992 + 1 + 1, delays = [(SegSync 0, 0), (SegSync 1, 570)], amix_inputs = 3,
          concat_list = None, retorno = DublagemCompleta\<rparr>
     = map (\<lambda>c. (arquivo c, \<lfloor>mul_double (info_start c) 1000\<rfloor>))
         (laco_sync \<lparr>excecao_externa = (\<lambda>i. False), sonda = (\<lambda>i. None),
       sync_returncode = (\<lambda>i. 0), mix_returncode = 0\<rparr> 0
           (normalizar_segmentos
     [\<lparr>get_text = Some (map of_char ''a''), get_start = Some (7378697629483821 / 18446744073709551616), get_duration = Some (1)\<rparr>,
      \<lparr>get_text = Some (map of_char ''b''), get_start = Some (5134103575202365 / 9007199254740992), get_duration = Some (1)\<rparr>]))"
proof -
  have e057: "expoente (5134103575202365 / 9007199254740992 * 1000) = 9"
    by (rule expoente_eq) (simp_all add: dois_elevado_def)
  have m057: "mul_double (5134103575202365 / 9007199254740992) 1000 = 570"
    unfolding mul_double_def arredondar_double_def e057 Let_def
    by (simp add: dois_elevado_def round_half_even_def)
  have e04: "expoente (7378697629483821 / 18446744073709551616 * 1000) = - 2"
    by (rule expoente_eq) (simp_all add: dois_elevado_def)
  have m04: "mul_double (7378697629483821 / 18446744073709551616) 1000 = 3602879701896397 / 9007199254740992"
    unfolding mul_double_def arredondar_double_def e04 Let_def
    by (simp add: dois_elevado_def round_half_even_def)
  have e: "gerar_audio_completo \<lparr>excecao_externa = (\<lambda>i. False), sonda = (\<lambda>i. None),
       sync_returncode = (\<lambda>i. 0), mix_returncode = 0\<rparr>
     [\<lparr>get_text = Some (map of_char ''a''), get_start = Some (7378697629483821 / 18446744073709551616), get_duration = Some (1)\<rparr>,
      \<lparr>get_text = Some (map of_char ''b''), get_start = Some (5134103575202365 / 9007199254740992), get_duration = Some (1)\<rparr>]
     = Inr \<lparr>duracao_total = 5134103575202365 / 9007199254740992 + 1 + 1, delays = [(SegSync 0, 0), (SegSync 1, 570)], amix_inputs = 3,
          concat_list = None, retorno = DublagemCompleta\<rparr>"
    by (simp add: gerar_cases laco_sync_step normalizar_nth reparado_def duracao_inferida_def strip_def
        is_space_def split_def upt_rec max_default_def delay_ms_def py_int_def
        fim_dos_sincronizados_def round_half_even_def m057 m04 del: laco_sync.simps(2))
  show ?thesis using delay_ms_truncates [OF e] e by simp
qed

end
